theory Spec2Isabelle
  imports Main
begin

section \<open>JavaScript values used by the importer\<close>

text \<open>
  The importer is JavaScript. A thrown exception is a value of \<open>js_error\<close>; a function
  that may throw returns \<open>js_error + 'a\<close> with \<open>Inl\<close> for the exception. The only
  exception the modelled code raises by itself is the \<open>TypeError\<close> of reading a property
  of \<open>undefined\<close>; a failing collaborator call (HTTP) raises \<open>HttpFailure\<close>.
\<close>

datatype js_error = TypeError | HttpFailure

text \<open>The double quote character, which a string literal cannot hold.\<close>

definition dq :: string where
  "dq = [CHR 0x22]"

text \<open>Template literals print a non-negative integer in decimal.\<close>

definition digit_char :: "nat \<Rightarrow> char" where
  "digit_char d = ''0123456789'' ! d"

function show_nat :: "nat \<Rightarrow> string" where
  "show_nat n = (if n < 10 then [digit_char n] else show_nat (n div 10) @ [digit_char (n mod 10)])"
  by pat_completeness auto
termination
  by (relation "measure id") auto

declare show_nat.simps [simp del]

text \<open>
  A JavaScript string is a sequence of UTF-16 code units. A \<open>char\<close> stands for a code
  unit below 256 (Latin-1), so that the strings of the model are those made of such code
  units; a string with another code unit is outside the model.

  \<open>String.prototype.includes\<close>: the pattern occurs as a contiguous run.
  \<open>String.prototype.toLowerCase\<close>: on Latin-1 it lowers the letters A to Z and the
  letters from U+00C0 to U+00DE other than the multiplication sign U+00D7, each to the
  code unit 32 above it, and leaves every other code unit as it is.
\<close>

fun starts_with :: "string \<Rightarrow> string \<Rightarrow> bool" where
  "starts_with s [] = True"
| "starts_with [] (p # ps) = False"
| "starts_with (c # cs) (p # ps) = (c = p \<and> starts_with cs ps)"

fun includes_str :: "string \<Rightarrow> string \<Rightarrow> bool" where
  "includes_str [] p = (p = [])"
| "includes_str (c # cs) p = (starts_with (c # cs) p \<or> includes_str cs p)"

definition lower_char :: "char \<Rightarrow> char" where
  "lower_char c =
     (let n = (of_char c :: nat)
      in if (65 \<le> n \<and> n \<le> 90) \<or> (192 \<le> n \<and> n \<le> 222 \<and> n \<noteq> 215) then char_of (n + 32)
         else c)"

definition toLowerCase :: "string \<Rightarrow> string" where
  "toLowerCase s = map lower_char s"

text \<open>
  \<open>s.replace(pattern, replacement)\<close> with a string pattern: only the first occurrence of
  the pattern is replaced. The \<open>$\<close> patterns of the replacement string are not modelled;
  the image markup the importer substitutes holds no \<open>$\<close>.
\<close>

fun js_replace :: "string \<Rightarrow> string \<Rightarrow> string \<Rightarrow> string" where
  "js_replace [] pat rep = (if pat = [] then rep else [])"
| "js_replace (c # cs) pat rep =
     (if starts_with (c # cs) pat then rep @ drop (length pat) (c # cs)
      else c # js_replace cs pat rep)"

text \<open>
  A JavaScript \<open>Map\<close> that is iterated keeps its keys in insertion order: \<open>set\<close> on a
  present key replaces the value in place, on an absent key appends the entry.
\<close>

fun Map_set :: "('k \<times> 'v) list \<Rightarrow> 'k \<Rightarrow> 'v \<Rightarrow> ('k \<times> 'v) list" where
  "Map_set [] k v = [(k, v)]"
| "Map_set (e # es) k v = (if fst e = k then (k, v) # es else e # Map_set es k v)"

section \<open>The document converter (convertAtlassianDocumentToHtml)\<close>

text \<open>
  A node of the Atlassian document format as the converter reads it: \<open>type\<close>,
  \<open>content\<close>, \<open>text\<close>, \<open>marks\<close> and \<open>attrs\<close>, each of which may be missing.
  \<open>Null\<close> is a falsy entry of a content array. Of a mark the converter reads \<open>type\<close>
  and \<open>attrs.href\<close>: \<open>mark_attrs\<close> is \<open>None\<close> when the mark has no \<open>attrs\<close>,
  \<open>Some None\<close> when \<open>attrs\<close> has no \<open>href\<close>.
\<close>

datatype mark = Mark (mark_type: string) (mark_attrs: "string option option")

record node_attrs =
  level :: "nat option"
  atype :: "string option"
  alt :: "string option"

datatype node =
    Null
  | Node (ntype: "string option") (ncontent: "node list option") (ntext: "string option")
         (nmarks: "mark list option") (nattrs: "node_attrs option")

datatype adf_doc = DocAbsent | DocString string | DocNode node

definition escape_html :: "string \<Rightarrow> string" where
  "escape_html s =
     concat (map (\<lambda>c. if c = CHR ''<'' then ''&lt;'' else if c = CHR ''>'' then ''&gt;'' else [c]) s)"

text \<open>One step of \<open>node.marks.forEach\<close>; a link mark reads \<open>mark.attrs.href\<close>.\<close>

definition applyMark :: "string \<Rightarrow> mark \<Rightarrow> js_error + string" where
  "applyMark t m =
     (if mark_type m = ''strong'' then Inr (''<strong>'' @ t @ ''</strong>'')
      else if mark_type m = ''em'' then Inr (''<em>'' @ t @ ''</em>'')
      else if mark_type m = ''code'' then Inr (''<code>'' @ t @ ''</code>'')
      else if mark_type m = ''link'' then
        (case mark_attrs m of
           None \<Rightarrow> Inl TypeError
         | Some h \<Rightarrow>
             Inr (''<a href='' @ dq @ (case h of None \<Rightarrow> ''undefined'' | Some u \<Rightarrow> u) @ dq
                  @ ''>'' @ t @ ''</a>''))
      else Inr t)"

fun applyMarks :: "string \<Rightarrow> mark list \<Rightarrow> js_error + string" where
  "applyMarks t [] = Inr t"
| "applyMarks t (m # ms) =
     (case applyMark t m of Inl e \<Rightarrow> Inl e | Inr t' \<Rightarrow> applyMarks t' ms)"

definition placeholder :: "string \<Rightarrow> string" where
  "placeholder filename = ''{{jira-attachment-placeholder:'' @ filename @ ''}}''"

text \<open>
  The \<open>switch (node.type)\<close> of \<open>processNode\<close>, given the rendered children
  \<open>content\<close>. \<open>node.attrs.level || 1\<close> takes 1 for a missing level and for level 0.
\<close>

definition renderNode ::
  "string \<Rightarrow> string \<Rightarrow> string option \<Rightarrow> mark list option \<Rightarrow> node_attrs option
     \<Rightarrow> js_error + string" where
  "renderNode ty content txt mks ats =
     (if ty = ''doc'' then Inr content
      else if ty = ''paragraph'' then
        Inr (''<p>'' @ (if content = [] then ''&nbsp;'' else content) @ ''</p>'')
      else if ty = ''text'' then
        (case txt of
           None \<Rightarrow> Inl TypeError
         | Some t \<Rightarrow>
             (case mks of None \<Rightarrow> Inr (escape_html t) | Some ms \<Rightarrow> applyMarks (escape_html t) ms))
      else if ty = ''bulletList'' then Inr (''<ul>'' @ content @ ''</ul>'')
      else if ty = ''orderedList'' then Inr (''<ol>'' @ content @ ''</ol>'')
      else if ty = ''listItem'' then Inr (''<li>'' @ content @ ''</li>'')
      else if ty = ''heading'' then
        (case ats of
           None \<Rightarrow> Inl TypeError
         | Some a \<Rightarrow>
             (let lv = (case level a of None \<Rightarrow> 1 | Some n \<Rightarrow> if n = 0 then 1 else n)
              in Inr (''<h'' @ show_nat lv @ ''>'' @ content @ ''</h'' @ show_nat lv @ ''>'')))
      else if ty = ''codeBlock'' then Inr (''<pre><code>'' @ content @ ''</code></pre>'')
      else if ty = ''blockquote'' then Inr (''<blockquote>'' @ content @ ''</blockquote>'')
      else if ty = ''hardBreak'' then Inr ''<br />''
      else if ty = ''table'' then Inr (''<table><tbody>'' @ content @ ''</tbody></table>'')
      else if ty = ''tableRow'' then Inr (''<tr>'' @ content @ ''</tr>'')
      else if ty = ''tableHeader'' then Inr (''<th>'' @ content @ ''</th>'')
      else if ty = ''tableCell'' then Inr (''<td>'' @ content @ ''</td>'')
      else if ty = ''mediaSingle'' then Inr (''<p>'' @ content @ ''</p>'')
      else if ty = ''media'' then
        (case ats of
           None \<Rightarrow> Inl TypeError
         | Some a \<Rightarrow>
             (if atype a = Some ''file'' \<and> alt a \<noteq> None \<and> alt a \<noteq> Some []
              then Inr (placeholder (the (alt a)))
              else Inr []))
      else Inr content)"

text \<open>\<open>node.content.map(processNode).join("")\<close>: the first child that throws ends the map.\<close>

fun join_results :: "(js_error + string) list \<Rightarrow> js_error + string" where
  "join_results [] = Inr []"
| "join_results (r # rs) =
     (case r of
        Inl e \<Rightarrow> Inl e
      | Inr s \<Rightarrow> (case join_results rs of Inl e \<Rightarrow> Inl e | Inr t \<Rightarrow> Inr (s @ t)))"

fun processNode :: "node \<Rightarrow> js_error + string" where
  "processNode Null = Inr []"
| "processNode (Node ty cont txt mks ats) =
     (if ty = None \<or> ty = Some [] then Inr []
      else
        (case (case cont of None \<Rightarrow> Inr [] | Some cs \<Rightarrow> join_results (map processNode cs)) of
           Inl e \<Rightarrow> Inl e
         | Inr content \<Rightarrow> renderNode (the ty) content txt mks ats))"

definition convertAtlassianDocumentToHtml :: "adf_doc \<Rightarrow> js_error + string" where
  "convertAtlassianDocumentToHtml doc =
     (case doc of
        DocAbsent \<Rightarrow> Inr []
      | DocString s \<Rightarrow> (if s = [] then Inr [] else Inr (''<p>'' @ s @ ''</p>''))
      | DocNode n \<Rightarrow> processNode n)"

section \<open>Placeholder substitution after attachment upload\<close>

text \<open>
  A target identifier is a number returned by the target system, or one of the string
  constants a dry run puts in its place.
\<close>

datatype ident = Num nat | Sym string

definition show_ident :: "ident \<Rightarrow> string" where
  "show_ident i = (case i of Num n \<Rightarrow> show_nat n | Sym s \<Rightarrow> s)"

definition imageTag :: "ident \<Rightarrow> string" where
  "imageTag attachmentId =
     ''<img class='' @ dq @ ''op-uc-image op-uc-image_inline'' @ dq @ '' src='' @ dq
     @ ''/api/v3/attachments/'' @ show_ident attachmentId @ ''/content'' @ dq @ ''>''"

text \<open>
  The loop over \<open>attachmentIdMap.entries()\<close> that finalizes a description (and a
  comment body): one \<open>replace\<close> per entry of the table, in insertion order.
\<close>

fun substitutePlaceholders :: "string \<Rightarrow> (string \<times> ident) list \<Rightarrow> string" where
  "substitutePlaceholders s [] = s"
| "substitutePlaceholders s ((filename, attachmentId) # es) =
     substitutePlaceholders (js_replace s (placeholder filename) (imageTag attachmentId)) es"

section \<open>The relationship module (createRelationships)\<close>

text \<open>
  Truthiness of an identifier (\<open>if (!fromWorkPackageId)\<close>): the number 0 and the empty
  string are falsy. Issue timestamps are ISO strings; \<open><\<close> and \<open>>\<close> on two strings
  compare them code unit by code unit, and any comparison with \<open>undefined\<close> is false.
\<close>

definition truthy :: "ident \<Rightarrow> bool" where
  "truthy i = (case i of Num n \<Rightarrow> n \<noteq> 0 | Sym s \<Rightarrow> s \<noteq> [])"

fun str_lt :: "string \<Rightarrow> string \<Rightarrow> bool" where
  "str_lt [] [] = False"
| "str_lt [] (y # ys) = True"
| "str_lt (x # xs) [] = False"
| "str_lt (x # xs) (y # ys) =
     ((of_char x :: nat) < of_char y \<or> (x = y \<and> str_lt xs ys))"

definition js_lt :: "string option \<Rightarrow> string option \<Rightarrow> bool" where
  "js_lt a b = (case a of None \<Rightarrow> False | Some x \<Rightarrow> (case b of None \<Rightarrow> False | Some y \<Rightarrow> str_lt x y))"

definition js_gt :: "string option \<Rightarrow> string option \<Rightarrow> bool" where
  "js_gt a b = js_lt b a"

text \<open>
  \<open>Map.get\<close> on the identity map, whose keys are strings: the key \<open>undefined\<close> is never
  found. \<open>Set.add\<close> on a set that is iterated: a new element goes last, a present one
  changes nothing.
\<close>

definition Map_get :: "(string \<times> 'v) list \<Rightarrow> string option \<Rightarrow> 'v option" where
  "Map_get m k = (case k of None \<Rightarrow> None | Some k' \<Rightarrow> map_of m k')"

definition Set_add :: "'a list \<Rightarrow> 'a \<Rightarrow> 'a list" where
  "Set_add xs x = (if x \<in> set xs then xs else xs @ [x])"

text \<open>
  The source issue as the module reads it: \<open>key\<close>, \<open>fields.created\<close>,
  \<open>fields.issuelinks\<close>, \<open>fields.customfield_10014\<close> (the epic link). A link carries
  \<open>type.outward\<close>, \<open>type.inward\<close> and one of \<open>outwardIssue\<close>, \<open>inwardIssue\<close>, of
  which the module reads \<open>key\<close> and \<open>fields?.created\<close>.
\<close>

record linked_issue =
  li_key :: string
  li_created :: "string option"

record issue_link =
  outward :: string
  inward :: string
  outwardIssue :: "linked_issue option"
  inwardIssue :: "linked_issue option"

record rel_issue =
  key :: string
  created :: "string option"
  issuelinks :: "issue_link list option"
  customfield_10014 :: "string option"

text \<open>
  An element of \<open>missingRelationships\<close>: the object \<open>{fromKey, toKey, type}\<close>. The
  source stores its \<open>JSON.stringify\<close> and parses it back in the retry; on an object of
  this fixed shape that is one-to-one, so the set of strings is a set of these records
  (an \<open>undefined\<close> field is dropped by stringify and read back as \<open>undefined\<close>).
\<close>

record rel_decl =
  fromKey :: string
  toKey :: "string option"
  relType :: "string option"

text \<open>
  The target system, as one call of createRelationship sees it.

  The reply to \<open>GET /work_packages/id\<close>: the \<open>href\<close> of \<open>_links.parent\<close>, when there
  is one.

  The reply to \<open>GET /relations\<close> for a list of (from, to, type) filters: its \<open>total\<close>
  and its \<open>_embedded.elements\<close> (\<open>None\<close> when the reply has none). Of an element the
  function reads \<open>_links.from.href\<close> and \<open>_links.to.href\<close>, each \<open>None\<close> when that
  path cannot be read as a string.

  The \<open>POST\<close> to \<open>/work_packages/id/relations\<close> carries the id of the URL and, in its
  payload, the type and the \<open>from\<close> and \<open>to\<close> links. The reply is success, or an error
  with the body \<open>error.response?.data\<close>, if any. An error body has a message of its
  own, which the function never reads, and the messages of \<open>_embedded.errors\<close>
  (\<open>None\<close> when that path is absent; a message is \<open>None\<close> when the error object has
  none).
\<close>

datatype get_wp_response = GetWpFailed | GetWpOk "string option"

record relation_elem =
  from_href :: "string option"
  to_href :: "string option"

datatype relations_response = RelationsFailed | RelationsReply nat "relation_elem list option"

record relation_request =
  req_work_package :: ident
  req_type :: "string option"
  req_from :: ident
  req_to :: ident

record error_body =
  own_message :: "string option"
  embedded_errors :: "string option list option"

datatype post_response = PostOk | PostFailed "error_body option"

record attempt_env =
  get_wp :: "ident \<Rightarrow> get_wp_response"
  get_relations :: "(string \<times> string \<times> string option) list \<Rightarrow> relations_response"
  post_relation :: "relation_request \<Rightarrow> post_response"

text \<open>\<open>href.split("/").pop()\<close>: what follows the last slash.\<close>

definition last_segment :: "string \<Rightarrow> string" where
  "last_segment s = rev (takeWhile (\<lambda>c. c \<noteq> CHR ''/'') (rev s))"

definition checkParentRelationship ::
  "(ident \<Rightarrow> get_wp_response) \<Rightarrow> ident \<Rightarrow> ident \<Rightarrow> string option \<Rightarrow> bool" where
  "checkParentRelationship get fromId toId ty =
     (let workPackageToCheck = (if ty = Some ''partof'' then fromId else toId);
          expectedParentId = (if ty = Some ''partof'' then toId else fromId)
      in case get workPackageToCheck of
           GetWpFailed \<Rightarrow> False
         | GetWpOk None \<Rightarrow> False
         | GetWpOk (Some href) \<Rightarrow>
             (if href = [] then False else last_segment href = show_ident expectedParentId))"

definition relationFilters ::
  "ident \<Rightarrow> ident \<Rightarrow> string option \<Rightarrow> (string \<times> string \<times> string option) list" where
  "relationFilters fromId toId ty =
     (show_ident fromId, show_ident toId, ty)
     # (if ty = Some ''relates'' then [(show_ident toId, show_ident fromId, ty)] else [])"

text \<open>
  What checkExistingRelationship makes of the reply to \<open>GET /relations\<close>. A relation
  exists when \<open>total > 0\<close>; the function then prints the first element, and a reply
  whose elements it cannot read throws inside the \<open>try\<close>, which the \<open>catch\<close> turns
  into the answer \<open>false\<close>.
\<close>

definition relationExists :: "relations_response \<Rightarrow> bool" where
  "relationExists reply =
     (case reply of
        RelationsFailed \<Rightarrow> False
      | RelationsReply n elements \<Rightarrow>
          (if 0 < n then
             (case elements of
                None \<Rightarrow> False
              | Some [] \<Rightarrow> True
              | Some (relation # rest) \<Rightarrow> from_href relation \<noteq> None \<and> to_href relation \<noteq> None)
           else False))"

definition checkExistingRelationship ::
  "attempt_env \<Rightarrow> ident \<Rightarrow> ident \<Rightarrow> string option \<Rightarrow> bool" where
  "checkExistingRelationship env fromId toId ty =
     (if (ty = Some ''partof'' \<or> ty = Some ''includes'')
         \<and> checkParentRelationship (get_wp env) fromId toId ty
      then True
      else relationExists (get_relations env (relationFilters fromId toId ty)))"

text \<open>
  How a call of createRelationship ends. Every path but the last returns normally:
  the relation was found to exist, the POST succeeded, the POST failed with an expected
  message (logged with \<open>console.log\<close>), the POST failed otherwise (logged with
  \<open>console.error\<close>). \<open>Thrown\<close> is the TypeError of \<open>e.message.toLowerCase()\<close> inside
  the catch block, on an error object without a message. \<open>postOutcome\<close> is what
  follows the POST, in the \<open>try\<close> and in the \<open>catch\<close>.
\<close>

datatype create_outcome = AlreadyExisted | Posted | NormalizedSuccess | ErrorLogged | Thrown

definition alreadyExists :: "string list \<Rightarrow> bool" where
  "alreadyExists messages =
     (list_ex (\<lambda>m. includes_str m ''already been taken'') messages
      \<or> list_ex (\<lambda>m. includes_str m ''would create a circular'') messages)"

definition postOutcome :: "post_response \<Rightarrow> create_outcome" where
  "postOutcome reply =
     (case reply of
        PostOk \<Rightarrow> Posted
      | PostFailed err \<Rightarrow>
          (case (case err of None \<Rightarrow> None | Some b \<Rightarrow> embedded_errors b) of
             None \<Rightarrow> ErrorLogged
           | Some es \<Rightarrow>
               (if list_ex (\<lambda>e. e = None) es then Thrown
                else if alreadyExists (map (\<lambda>e. toLowerCase (the e)) es)
                then NormalizedSuccess
                else ErrorLogged)))"

definition createRelationship ::
  "attempt_env \<Rightarrow> ident \<Rightarrow> ident \<Rightarrow> string option \<Rightarrow> create_outcome" where
  "createRelationship env fromId toId ty =
     (if checkExistingRelationship env fromId toId ty then AlreadyExisted
      else postOutcome
             (post_relation env
                \<lparr>req_work_package = fromId, req_type = ty, req_from = fromId, req_to = toId\<rparr>))"

text \<open>
  The module's state: its two module-level collections, and what it did to the outside:
  the calls of createRelationship (from, to, type) in order, and the lines it printed.
  The target system answers the n-th call of createRelationship of a run with
  \<open>world n\<close>.
\<close>

datatype rel_event =
    EpicNotFound string
  | SkippingDuplicate string
  | FailedToCreate rel_decl
  | TargetNotFound "string option"
  | Retrying nat
  | CreatedRelationship rel_decl
  | RetryFailed rel_decl
  | StillMissing rel_decl
  | CreationFailed

record rel_state =
  issueToWorkPackageMap :: "(string \<times> ident) list"
  missingRelationships :: "rel_decl list"
  attempts :: "(ident \<times> ident \<times> string option) list"
  printed :: "rel_event list"

definition resolve :: "rel_state \<Rightarrow> string option \<Rightarrow> ident option" where
  "resolve st k =
     (case Map_get (issueToWorkPackageMap st) k of
        None \<Rightarrow> None
      | Some i \<Rightarrow> (if truthy i then Some i else None))"

definition call_createRelationship ::
  "(nat \<Rightarrow> attempt_env) \<Rightarrow> ident \<Rightarrow> ident \<Rightarrow> string option \<Rightarrow> rel_state
     \<Rightarrow> create_outcome \<times> rel_state" where
  "call_createRelationship world fromId toId ty st =
     (createRelationship (world (length (attempts st))) fromId toId ty,
      st\<lparr>attempts := attempts st @ [(fromId, toId, ty)]\<rparr>)"

definition say :: "rel_event \<Rightarrow> rel_state \<Rightarrow> rel_state" where
  "say e st = st\<lparr>printed := printed st @ [e]\<rparr>"

definition addMissing :: "rel_decl \<Rightarrow> rel_state \<Rightarrow> rel_state" where
  "addMissing d st = st\<lparr>missingRelationships := Set_add (missingRelationships st) d\<rparr>"

text \<open>
  The body of the loop over \<open>issue.fields.issuelinks\<close>, up to \<open>shouldSkip\<close>: the three
  variables \<open>relatedIssueKey\<close>, \<open>relationType\<close>, \<open>shouldSkip\<close>.
\<close>

definition classifyLink :: "rel_issue \<Rightarrow> issue_link \<Rightarrow> string option \<times> string option \<times> bool" where
  "classifyLink issue link =
     (case outwardIssue link of
        Some oi \<Rightarrow>
          (Some (li_key oi),
           Some (if outward link = ''blocks'' then ''blocks''
                 else if outward link = ''relates to'' then ''relates''
                 else if outward link = ''is parent of'' then ''includes''
                 else if outward link = ''duplicates'' then ''duplicates''
                 else ''relates''),
           outward link = ''duplicates'' \<and> js_gt (created issue) (li_created oi))
      | None \<Rightarrow>
          (case inwardIssue link of
             Some ii \<Rightarrow>
               (Some (li_key ii),
                Some (if inward link = ''is blocked by'' then ''blocked''
                      else if inward link = ''relates to'' then ''relates''
                      else if inward link = ''is child of'' then ''partof''
                      else if inward link = ''is duplicated by'' then ''duplicated''
                      else ''relates''),
                inward link = ''is duplicated by'' \<and> js_lt (created issue) (li_created ii))
           | None \<Rightarrow> (None, None, False)))"

definition handleLink ::
  "(nat \<Rightarrow> attempt_env) \<Rightarrow> rel_issue \<Rightarrow> ident \<Rightarrow> issue_link \<Rightarrow> rel_state \<Rightarrow> rel_state" where
  "handleLink world issue fromWorkPackageId link st =
     (case classifyLink issue link of
        (relatedIssueKey, relationType, shouldSkip) \<Rightarrow>
          (if shouldSkip then say (SkippingDuplicate (key issue)) st
           else
             (let d = \<lparr>fromKey = key issue, toKey = relatedIssueKey, relType = relationType\<rparr>
              in case resolve st relatedIssueKey of
                   Some toWorkPackageId \<Rightarrow>
                     (case call_createRelationship world fromWorkPackageId toWorkPackageId
                             relationType st of
                        (outcome, st') \<Rightarrow>
                          (if outcome = Thrown then addMissing d (say (FailedToCreate d) st') else st'))
                 | None \<Rightarrow> addMissing d (say (TargetNotFound relatedIssueKey) st))))"

fun handleLinks ::
  "(nat \<Rightarrow> attempt_env) \<Rightarrow> rel_issue \<Rightarrow> ident \<Rightarrow> issue_link list \<Rightarrow> rel_state \<Rightarrow> rel_state" where
  "handleLinks world issue fromWorkPackageId [] st = st"
| "handleLinks world issue fromWorkPackageId (link # links) st =
     handleLinks world issue fromWorkPackageId links
       (handleLink world issue fromWorkPackageId link st)"

text \<open>
  handleRelationships returns the exception it throws, if any, with the state it leaves.
  Only the epic link's call of createRelationship is outside a try block.
\<close>

definition handleRelationships ::
  "(nat \<Rightarrow> attempt_env) \<Rightarrow> rel_issue \<Rightarrow> rel_state \<Rightarrow> js_error option \<times> rel_state" where
  "handleRelationships world issue st =
     (let epic = (case customfield_10014 issue of
                    None \<Rightarrow> None | Some e \<Rightarrow> (if e = [] then None else Some e))
      in if issuelinks issue = None \<and> epic = None then (None, st)
         else
           (case resolve st (Some (key issue)) of
              None \<Rightarrow> (None, st)
            | Some fromWorkPackageId \<Rightarrow>
                (let (thrown, st1) =
                   (case epic of
                      None \<Rightarrow> (False, st)
                    | Some epicKey \<Rightarrow>
                        (case resolve st (Some epicKey) of
                           Some epicWorkPackageId \<Rightarrow>
                             (case call_createRelationship world fromWorkPackageId
                                     epicWorkPackageId (Some ''partof'') st of
                                (outcome, st') \<Rightarrow> (outcome = Thrown, st'))
                         | None \<Rightarrow>
                             (False,
                              addMissing \<lparr>fromKey = key issue, toKey = Some epicKey,
                                     relType = Some ''partof''\<rparr>
                                (say (EpicNotFound epicKey) st))))
                 in if thrown then (Some TypeError, st1)
                    else (case issuelinks issue of
                            None \<Rightarrow> (None, st1)
                          | Some links \<Rightarrow>
                              (None, handleLinks world issue fromWorkPackageId links st1)))))"

definition retryOne :: "(nat \<Rightarrow> attempt_env) \<Rightarrow> rel_decl \<Rightarrow> rel_state \<Rightarrow> rel_state" where
  "retryOne world rel st =
     (case resolve st (Some (fromKey rel)) of
        None \<Rightarrow> say (StillMissing rel) st
      | Some fromWorkPackageId \<Rightarrow>
          (case resolve st (toKey rel) of
             None \<Rightarrow> say (StillMissing rel) st
           | Some toWorkPackageId \<Rightarrow>
               (case call_createRelationship world fromWorkPackageId toWorkPackageId
                       (relType rel) st of
                  (outcome, st') \<Rightarrow>
                    (if outcome = Thrown then say (RetryFailed rel) st'
                     else say (CreatedRelationship rel) st'))))"

fun retryAll :: "(nat \<Rightarrow> attempt_env) \<Rightarrow> rel_decl list \<Rightarrow> rel_state \<Rightarrow> rel_state" where
  "retryAll world [] st = st"
| "retryAll world (rel # rels) st = retryAll world rels (retryOne world rel st)"

definition retryMissingRelationships :: "(nat \<Rightarrow> attempt_env) \<Rightarrow> rel_state \<Rightarrow> rel_state" where
  "retryMissingRelationships world st =
     (if missingRelationships st = [] then st
      else
        (let retryRelationships = missingRelationships st
         in retryAll world retryRelationships
              ((say (Retrying (length retryRelationships)) st)\<lparr>missingRelationships := []\<rparr>)))"

text \<open>
  createRelationships: seed the map from the entries of the object passed in, run
  handleRelationships on every issue, then retry. An exception ends the first pass and
  is caught at the end of the function, so that the retry does not run.
\<close>

fun seedMap :: "(string \<times> ident) list \<Rightarrow> (string \<times> ident) list \<Rightarrow> (string \<times> ident) list" where
  "seedMap m [] = m"
| "seedMap m ((k, i) # entries) = seedMap (Map_set m k i) entries"

fun firstPass ::
  "(nat \<Rightarrow> attempt_env) \<Rightarrow> rel_issue list \<Rightarrow> rel_state \<Rightarrow> js_error option \<times> rel_state" where
  "firstPass world [] st = (None, st)"
| "firstPass world (issue # issues) st =
     (case handleRelationships world issue st of
        (Some e, st') \<Rightarrow> (Some e, st')
      | (None, st') \<Rightarrow> firstPass world issues st')"

definition createRelationships ::
  "(nat \<Rightarrow> attempt_env) \<Rightarrow> rel_issue list \<Rightarrow> (string \<times> ident) list \<Rightarrow> rel_state \<Rightarrow> rel_state" where
  "createRelationships world issues issueKeyToWorkPackageIdMap st =
     (case firstPass world issues
             (st\<lparr>issueToWorkPackageMap :=
                   seedMap (issueToWorkPackageMap st) issueKeyToWorkPackageIdMap\<rparr>) of
        (Some e, st') \<Rightarrow> say CreationFailed st'
      | (None, st') \<Rightarrow> retryMissingRelationships world st')"

text \<open>The module as it is loaded: an empty map and an empty set.\<close>

definition initial_rel_state :: rel_state where
  "initial_rel_state =
     \<lparr>issueToWorkPackageMap = [], missingRelationships = [], attempts = [], printed = []\<rparr>"

text \<open>
  The calls of createRelationship that the retry sweep makes for one deferred
  declaration, as a function of the identity map: one call when both keys resolve to a
  truthy identifier, none otherwise. The next two functions recognise two of the lines
  the module prints.
\<close>

definition retryCall :: "rel_state \<Rightarrow> rel_decl \<Rightarrow> (ident \<times> ident \<times> string option) list" where
  "retryCall st rel =
     (case resolve st (Some (fromKey rel)) of
        None \<Rightarrow> []
      | Some f \<Rightarrow> (case resolve st (toKey rel) of None \<Rightarrow> [] | Some t \<Rightarrow> [(f, t, relType rel)]))"

definition isStillMissing :: "rel_event \<Rightarrow> bool" where
  "isStillMissing e = (case e of StillMissing d \<Rightarrow> True | _ \<Rightarrow> False)"

definition isRetrying :: "rel_event \<Rightarrow> bool" where
  "isRetrying e = (case e of Retrying n \<Rightarrow> True | _ \<Rightarrow> False)"

section \<open>Adding a watcher (addWatcher of the target client)\<close>





section \<open>The entity synchronizer (migrateIssues)\<close>

subsection \<open>Vocabulary lookups of the target client\<close>











subsection \<open>The source issue, the payload and the collaborators' replies\<close>

text \<open>
  The fields of a source issue that migrateIssues reads, on top of those the relationship
  module reads. A user is its \<open>accountId\<close>. \<open>None\<close> stands for a missing object:
  no \<open>assignee\<close>, no \<open>creator\<close>, no \<open>status\<close>, no \<open>issuetype\<close>, no \<open>priority\<close>,
  no author of a comment, no \<open>attachment\<close> array, no \<open>comment\<close> object, no
  \<open>watches?.watchCount\<close>.
\<close>

record jira_comment =
  comment_id :: string
  author :: "string option"
  body :: adf_doc

record jira_issue = rel_issue +
  summary :: string
  description :: adf_doc
  assignee :: "string option"
  creator :: "string option"
  status_name :: "string option"
  issuetype_name :: "string option"
  priority_name :: "string option"
  attachment :: "string list option"
  comments :: "jira_comment list option"
  watchCount :: "nat option"

record payload =
  subject :: string
  description_raw :: string
  type_id :: nat
  status_id :: nat
  priority_id :: "nat option"
  project_id :: nat
  jira_key :: string
  assignee_id :: "nat option"
  responsible_id :: "nat option"



text \<open>
  The mutating calls on the target system, and the lines a dry run prints in their
  place. \<open>mutation_kind\<close> names the step that a call or a line belongs to, with the
  payload, file name or watcher it is about.
\<close>

datatype mutation =
    CreateWorkPackage payload "string option"
  | UpdateWorkPackage ident payload "string option"
  | UploadAttachment ident string "string option"
  | UpdateDescription ident string "string option"
  | AddComment ident string "string option"
  | AddWatcher ident nat

datatype dry_line =
    WouldCreateOrUpdate payload
  | WouldUpload string
  | WouldUpdateDescription string
  | WouldAddComment string
  | WouldAddWatcher nat ident




record effects =
  mutating_calls :: "mutation list"
  dry_lines :: "dry_line list"


definition dry :: "dry_line \<Rightarrow> effects \<Rightarrow> effects" where
  "dry l fx = fx\<lparr>dry_lines := dry_lines fx @ [l]\<rparr>"


subsection \<open>The steps for one issue\<close>





















section \<open>Notions used to state the results about migrateIssues\<close>










section \<open>Concrete inputs for migrateIssues\<close>









section \<open>Concrete inputs\<close>

text \<open>
  A target system that finds no relation and accepts every POST, and one whose first
  POST fails with an error object that has no message. Two issues of a project, with
  the identity map that resolves both.
\<close>

definition accepting :: attempt_env where
  "accepting = \<lparr>get_wp = (\<lambda>i. GetWpOk None), get_relations = (\<lambda>fs. RelationsReply 0 (Some [])),
     post_relation = (\<lambda>r. PostOk)\<rparr>"

definition quiet_world :: "nat \<Rightarrow> attempt_env" where
  "quiet_world n = accepting"

definition flaky_world :: "nat \<Rightarrow> attempt_env" where
  "flaky_world n =
     (if n = 0
      then accepting\<lparr>post_relation :=
             (\<lambda>r. PostFailed (Some \<lparr>own_message = None, embedded_errors = Some [None]\<rparr>))\<rparr>
      else accepting)"

definition two_keys :: "(string \<times> ident) list" where
  "two_keys = [(''P-1'', Num 1), (''P-2'', Num 2)]"


definition link_to :: "string \<Rightarrow> string \<Rightarrow> string \<Rightarrow> string option \<Rightarrow> issue_link" where
  "link_to out_name in_name k t =
     \<lparr>outward = out_name, inward = in_name,
      outwardIssue = Some \<lparr>li_key = k, li_created = t\<rparr>, inwardIssue = None\<rparr>"

definition link_from :: "string \<Rightarrow> string \<Rightarrow> string \<Rightarrow> string option \<Rightarrow> issue_link" where
  "link_from out_name in_name k t =
     \<lparr>outward = out_name, inward = in_name,
      outwardIssue = None, inwardIssue = Some \<lparr>li_key = k, li_created = t\<rparr>\<rparr>"

definition issue_with :: "string \<Rightarrow> string option \<Rightarrow> issue_link list \<Rightarrow> rel_issue" where
  "issue_with k t links =
     \<lparr>key = k, created = t, issuelinks = Some links, customfield_10014 = None\<rparr>"

definition jan :: "string option" where
  "jan = Some ''2024-01-01T10:00:00.000+0000''"

definition feb :: "string option" where
  "feb = Some ''2024-02-01T10:00:00.000+0000''"

text \<open>
  An issue with two \<open>blocks\<close> links, one to an issue of the batch and one to an issue
  outside it, and the state the first pass leaves when the first POST throws.
\<close>

definition two_links_issue :: rel_issue where
  "two_links_issue =
     issue_with ''P-1'' jan
       [link_to ''blocks'' ''is blocked by'' ''P-2'' None,
        link_to ''blocks'' ''is blocked by'' ''P-9'' None]"

definition after_first_pass :: rel_state where
  "after_first_pass =
     \<lparr>issueToWorkPackageMap = two_keys,
      missingRelationships =
        [\<lparr>fromKey = ''P-1'', toKey = Some ''P-2'', relType = Some ''blocks''\<rparr>,
         \<lparr>fromKey = ''P-1'', toKey = Some ''P-9'', relType = Some ''blocks''\<rparr>],
      attempts = [(Num 1, Num 2, Some ''blocks'')],
      printed =
        [FailedToCreate \<lparr>fromKey = ''P-1'', toKey = Some ''P-2'', relType = Some ''blocks''\<rparr>,
         TargetNotFound (Some ''P-9'')]\<rparr>"

text \<open>
  Three replies to the POST of a relation that say that it exists already: in the
  errors of the body, next to another error; as the message of the body itself; and in
  the errors of the body, next to an error object without a message. An issue of the
  batch whose epic is the other issue.
\<close>

definition taken_body :: error_body where
  "taken_body =
     \<lparr>own_message = Some ''Multiple field constraints have been violated.'',
      embedded_errors = Some [Some ''Lag is not a number.'', Some ''To has already been taken.'']\<rparr>"

definition taken :: attempt_env where
  "taken = accepting\<lparr>post_relation := (\<lambda>r. PostFailed (Some taken_body))\<rparr>"




section \<open>Results about the document converter\<close>

lemma processNode_unknown_type:
  assumes "ty \<notin> {'''', ''doc'', ''paragraph'', ''text'', ''bulletList'', ''orderedList'',
      ''listItem'', ''heading'', ''codeBlock'', ''blockquote'', ''hardBreak'', ''table'',
      ''tableRow'', ''tableHeader'', ''tableCell'', ''mediaSingle'', ''media''}"
  shows "processNode (Node (Some ty) (Some cs) txt mks ats) = join_results (map processNode cs)"
  using assms by (auto simp: renderNode_def split: sum.splits)

lemma heading_without_level:
  "processNode (Node (Some ''heading'') None txt mks (Some \<lparr>level = None, atype = t, alt = a\<rparr>))
     = Inr ''<h1></h1>''"
  by (simp add: renderNode_def digit_char_def show_nat.simps)

text \<open>
  Claim C3. The converter is total and never throws, also on malformed documents: a text
  node without \<open>text\<close>, a heading or media node without \<open>attrs\<close>, a link mark without
  \<open>attrs\<close>. The code throws a TypeError on each of the four.
\<close>

theorem C3_converter_throws_on_malformed:
  "convertAtlassianDocumentToHtml
     (DocNode (Node (Some ''doc'') (Some [Node (Some ''text'') None None None None]) None None None))
     = Inl TypeError
   \<and> convertAtlassianDocumentToHtml
     (DocNode (Node (Some ''doc'') (Some [Node (Some ''heading'') None None None None]) None None None))
     = Inl TypeError
   \<and> convertAtlassianDocumentToHtml
     (DocNode (Node (Some ''doc'') (Some [Node (Some ''media'') None None None None]) None None None))
     = Inl TypeError
   \<and> convertAtlassianDocumentToHtml
     (DocNode (Node (Some ''doc'')
        (Some [Node (Some ''text'') None (Some ''x'') (Some [Mark ''link'' None]) None]) None None None))
     = Inl TypeError"
  by (simp add: convertAtlassianDocumentToHtml_def renderNode_def applyMark_def)

section \<open>Results about placeholder substitution\<close>

text \<open>
  Claim C4. After attachment upload every occurrence of a placeholder token whose filename
  is in the substitution table is replaced by the inline image markup, and a token with no
  matching artifact is left unchanged. The code replaces the first occurrence only: a
  description that embeds the uploaded file \<open>a.png\<close> twice keeps its second placeholder.
\<close>

theorem C4_second_occurrence_not_replaced:
  "convertAtlassianDocumentToHtml
     (DocNode (Node (Some ''doc'')
        (Some [Node (Some ''media'') None None None
                 (Some \<lparr>level = None, atype = Some ''file'', alt = Some ''a.png''\<rparr>),
               Node (Some ''media'') None None None
                 (Some \<lparr>level = None, atype = Some ''file'', alt = Some ''a.png''\<rparr>)])
        None None None))
     = Inr (placeholder ''a.png'' @ placeholder ''a.png'')
   \<and> substitutePlaceholders (placeholder ''a.png'' @ placeholder ''a.png'') [(''a.png'', Num 7)]
     = imageTag (Num 7) @ placeholder ''a.png''"
  by (simp add: convertAtlassianDocumentToHtml_def renderNode_def placeholder_def)


section \<open>Helper facts about the relationship module\<close>



lemma attempts_say [simp]: "attempts (say e st) = attempts st"
  by (simp add: say_def)

lemma attempts_addMissing [simp]: "attempts (addMissing d st) = attempts st"
  by (simp add: addMissing_def)

lemma map_say [simp]: "issueToWorkPackageMap (say e st) = issueToWorkPackageMap st"
  by (simp add: say_def)

lemma map_addMissing [simp]: "issueToWorkPackageMap (addMissing d st) = issueToWorkPackageMap st"
  by (simp add: addMissing_def)

lemma missing_say [simp]: "missingRelationships (say e st) = missingRelationships st"
  by (simp add: say_def)

lemma resolve_say [simp]: "resolve (say e st) k = resolve st k"
  by (simp add: resolve_def)

lemma resolve_addMissing [simp]: "resolve (addMissing d st) k = resolve st k"
  by (simp add: resolve_def)

lemma call_fields [simp]:
  "attempts (snd (call_createRelationship world f t ty st)) = attempts st @ [(f, t, ty)]"
  "missingRelationships (snd (call_createRelationship world f t ty st)) = missingRelationships st"
  "issueToWorkPackageMap (snd (call_createRelationship world f t ty st)) = issueToWorkPackageMap st"
  "printed (snd (call_createRelationship world f t ty st)) = printed st"
  "resolve (snd (call_createRelationship world f t ty st)) k = resolve st k"
  by (simp_all add: call_createRelationship_def resolve_def)



lemma printed_say [simp]: "printed (say e st) = printed st @ [e]"
  by (simp add: say_def)

lemma printed_addMissing [simp]: "printed (addMissing d st) = printed st"
  by (simp add: addMissing_def)

lemma missing_addMissing [simp]:
  "missingRelationships (addMissing d st) = Set_add (missingRelationships st) d"
  by (simp add: addMissing_def)

lemma distinct_Set_add: "distinct xs \<Longrightarrow> distinct (Set_add xs x)"
  by (simp add: Set_add_def)

lemma resolve_cong:
  "issueToWorkPackageMap st' = issueToWorkPackageMap st \<Longrightarrow> resolve st' k = resolve st k"
  by (simp add: resolve_def)

lemma retryCall_cong:
  "issueToWorkPackageMap st' = issueToWorkPackageMap st \<Longrightarrow> retryCall st' rel = retryCall st rel"
  by (simp add: retryCall_def resolve_cong [of st' st] split: option.splits)

lemma handleLink_missing:
  "missingRelationships (handleLink world issue f link st) = missingRelationships st
   \<or> missingRelationships (handleLink world issue f link st)
       = Set_add (missingRelationships st)
           \<lparr>fromKey = key issue, toKey = fst (classifyLink issue link),
            relType = fst (snd (classifyLink issue link))\<rparr>"
  by (simp add: handleLink_def call_createRelationship_def Let_def split: prod.splits option.splits)

lemma handleLink_distinct:
  "distinct (missingRelationships st) \<Longrightarrow> distinct (missingRelationships (handleLink world issue f link st))"
  using handleLink_missing [of world issue f link st] by (auto simp: distinct_Set_add)

lemma handleLink_map [simp]:
  "issueToWorkPackageMap (handleLink world issue f link st) = issueToWorkPackageMap st"
  by (simp add: handleLink_def call_createRelationship_def Let_def
      split: prod.splits option.splits)

lemma handleLink_retrying:
  "filter isRetrying (printed (handleLink world issue f link st)) = filter isRetrying (printed st)"
  by (simp add: handleLink_def call_createRelationship_def Let_def isRetrying_def
      split: prod.splits option.splits)

lemma handleLinks_distinct:
  "distinct (missingRelationships st) \<Longrightarrow> distinct (missingRelationships (handleLinks world issue f links st))"
  by (induction links arbitrary: st) (simp_all add: handleLink_distinct)

lemma handleLinks_retrying:
  "filter isRetrying (printed (handleLinks world issue f links st)) = filter isRetrying (printed st)"
  by (induction links arbitrary: st) (simp_all add: handleLink_retrying)

lemma handleRelationships_distinct:
  "distinct (missingRelationships st) \<Longrightarrow>
   distinct (missingRelationships (snd (handleRelationships world issue st)))"
  by (simp add: handleRelationships_def Let_def call_createRelationship_def handleLinks_distinct
      distinct_Set_add split: option.splits prod.splits)

lemma handleRelationships_retrying:
  "filter isRetrying (printed (snd (handleRelationships world issue st))) = filter isRetrying (printed st)"
  by (simp add: handleRelationships_def Let_def call_createRelationship_def handleLinks_retrying
      isRetrying_def split: option.splits prod.splits)


lemma firstPass_distinct:
  "distinct (missingRelationships st) \<Longrightarrow>
   distinct (missingRelationships (snd (firstPass world issues st)))"
proof (induction issues arbitrary: st)
  case Nil
  then show ?case by simp
next
  case (Cons issue issues)
  obtain r st' where h: "handleRelationships world issue st = (r, st')"
    by (cases "handleRelationships world issue st")
  have d: "distinct (missingRelationships st')"
    using handleRelationships_distinct [OF Cons.prems, of world issue] h by simp
  show ?case
    using Cons.IH [OF d] d h by (cases r) simp_all
qed

lemma firstPass_retrying:
  "filter isRetrying (printed (snd (firstPass world issues st))) = filter isRetrying (printed st)"
proof (induction issues arbitrary: st)
  case Nil
  then show ?case by simp
next
  case (Cons issue issues)
  obtain r st' where h: "handleRelationships world issue st = (r, st')"
    by (cases "handleRelationships world issue st")
  have d: "filter isRetrying (printed st') = filter isRetrying (printed st)"
    using handleRelationships_retrying [of world issue st] h by simp
  show ?case
    using Cons.IH [of st'] d h by (cases r) simp_all
qed

lemma retryOne_missing [simp]:
  "missingRelationships (retryOne world rel st) = missingRelationships st"
  by (simp add: retryOne_def call_createRelationship_def split: option.splits prod.splits)

lemma retryOne_map [simp]:
  "issueToWorkPackageMap (retryOne world rel st) = issueToWorkPackageMap st"
  by (simp add: retryOne_def call_createRelationship_def split: option.splits prod.splits)

lemma retryOne_attempts:
  "attempts (retryOne world rel st) = attempts st @ retryCall st rel"
  by (simp add: retryOne_def retryCall_def call_createRelationship_def split: option.splits prod.splits)

lemma retryOne_stillMissing:
  "filter isStillMissing (printed (retryOne world rel st))
     = filter isStillMissing (printed st) @ (if retryCall st rel = [] then [StillMissing rel] else [])"
  by (simp add: retryOne_def retryCall_def call_createRelationship_def isStillMissing_def
      split: option.splits prod.splits)

lemma retryOne_retrying:
  "filter isRetrying (printed (retryOne world rel st)) = filter isRetrying (printed st)"
  by (simp add: retryOne_def call_createRelationship_def isRetrying_def
      split: option.splits prod.splits)

lemma retryAll_missing [simp]:
  "missingRelationships (retryAll world rels st) = missingRelationships st"
  by (induction rels arbitrary: st) simp_all

lemma retryAll_attempts:
  "attempts (retryAll world rels st) = attempts st @ concat (map (retryCall st) rels)"
proof (induction rels arbitrary: st)
  case Nil
  then show ?case by simp
next
  case (Cons rel rels)
  have "retryCall (retryOne world rel st) = retryCall st"
    by (rule ext) (simp add: retryCall_cong [of "retryOne world rel st" st])
  then show ?case
    using Cons.IH [of "retryOne world rel st"] by (simp add: retryOne_attempts)
qed

lemma retryAll_stillMissing:
  "filter isStillMissing (printed (retryAll world rels st))
     = filter isStillMissing (printed st)
       @ map StillMissing (filter (\<lambda>d. retryCall st d = []) rels)"
proof (induction rels arbitrary: st)
  case Nil
  then show ?case by simp
next
  case (Cons rel rels)
  have "retryCall (retryOne world rel st) = retryCall st"
    by (rule ext) (simp add: retryCall_cong [of "retryOne world rel st" st])
  then show ?case
    using Cons.IH [of "retryOne world rel st"] by (simp add: retryOne_stillMissing)
qed

lemma retryAll_retrying:
  "filter isRetrying (printed (retryAll world rels st)) = filter isRetrying (printed st)"
  by (induction rels arbitrary: st) (simp_all add: retryOne_retrying)

lemma retryCall_clear:
  "retryCall ((say e st)\<lparr>missingRelationships := []\<rparr>) d = retryCall st d"
  by (simp add: retryCall_cong [of "(say e st)\<lparr>missingRelationships := []\<rparr>" st])

lemma set_Set_add: "set (Set_add xs x) = insert x (set xs)"
  by (auto simp: Set_add_def)

section \<open>Helper facts about strings\<close>

















section \<open>Results about the relationship module\<close>

text \<open>
  Claim C1. For a pair linked by duplicates / is duplicated by, with both keys in the
  identity map, exactly one edge is created over the two passes, in the pass of the
  earlier-created issue. In the code both passes take the same decision. When the issue
  that declares the outward link is the later one (P-2 duplicates the older P-1), both
  passes skip and no call of createRelationship is made; when it is the earlier one,
  both passes call it.
\<close>

theorem C1_duplicates_pair_zero_or_two_attempts:
  "attempts (createRelationships world
       [issue_with ''P-1'' jan [link_from ''duplicates'' ''is duplicated by'' ''P-2'' feb],
        issue_with ''P-2'' feb [link_to ''duplicates'' ''is duplicated by'' ''P-1'' jan]]
       two_keys initial_rel_state) = []
   \<and> attempts (createRelationships quiet_world
       [issue_with ''P-1'' jan [link_to ''duplicates'' ''is duplicated by'' ''P-2'' feb],
        issue_with ''P-2'' feb [link_from ''duplicates'' ''is duplicated by'' ''P-1'' jan]]
       two_keys initial_rel_state)
     = [(Num 1, Num 2, Some ''duplicates''), (Num 2, Num 1, Some ''duplicated'')]"
  by (simp add: createRelationships_def initial_rel_state_def two_keys_def issue_with_def
      link_to_def link_from_def jan_def feb_def handleRelationships_def resolve_def Map_get_def
      truthy_def handleLink_def classifyLink_def js_gt_def js_lt_def say_def
      call_createRelationship_def retryMissingRelationships_def quiet_world_def accepting_def
      createRelationship_def checkExistingRelationship_def relationFilters_def relationExists_def
      postOutcome_def Let_def)




text \<open>
  Claim C6. The deferred set holds each declaration at most once, before and after the
  first pass and at the end of createRelationships; the retry loop adds nothing to it,
  whatever the target system answers, and the retry leaves it empty.
\<close>

theorem C6_deferred_set_distinct_and_drained:
  assumes "distinct (missingRelationships st)"
  shows "distinct (missingRelationships (snd (firstPass world issues st)))
       \<and> missingRelationships (retryAll world rels st) = missingRelationships st
       \<and> missingRelationships (retryMissingRelationships world st) = []
       \<and> distinct (missingRelationships (createRelationships world issues entries st))"
proof -
  let ?st0 = "st\<lparr>issueToWorkPackageMap := seedMap (issueToWorkPackageMap st) entries\<rparr>"
  have d0: "distinct (missingRelationships ?st0)"
    using assms by simp
  obtain r st1 where f: "firstPass world issues ?st0 = (r, st1)"
    by (cases "firstPass world issues ?st0")
  have d1: "distinct (missingRelationships st1)"
    using firstPass_distinct [OF d0, of world issues] f by simp
  have r0: "missingRelationships (retryMissingRelationships world st) = []" for st
    by (simp add: retryMissingRelationships_def Let_def)
  have "distinct (missingRelationships (createRelationships world issues entries st))"
    using d1 f r0 by (cases r) (simp_all add: createRelationships_def)
  then show ?thesis
    using firstPass_distinct [OF assms] r0 by simp
qed

theorem C6_deferred_set_witness:
  "distinct (missingRelationships initial_rel_state)
   \<and> distinct (missingRelationships (snd (firstPass flaky_world [two_links_issue] initial_rel_state)))
   \<and> missingRelationships (retryAll flaky_world (missingRelationships after_first_pass) after_first_pass)
       = missingRelationships after_first_pass
   \<and> missingRelationships (retryMissingRelationships flaky_world initial_rel_state) = []
   \<and> distinct (missingRelationships
        (createRelationships flaky_world [two_links_issue] two_keys initial_rel_state))"
proof -
  have d: "distinct (missingRelationships initial_rel_state)"
    by (simp add: initial_rel_state_def)
  show ?thesis
    using d C6_deferred_set_distinct_and_drained [OF d, of flaky_world "[two_links_issue]"
        "missingRelationships after_first_pass" two_keys]
    by (simp add: retryAll_missing)
qed

text \<open>
  Claim C7. When the first pass over all issues has returned, createRelationships runs
  the retry once on the state it left: each deferred declaration is resolved again and
  leads to one call of createRelationship when both keys resolve and to none otherwise,
  in which case it is reported as still missing; one \<open>Retrying\<close> line is printed when
  something was deferred; the set is empty afterwards, so nothing is retried again.
\<close>

theorem C7_one_retry_sweep:
  assumes "firstPass world issues
             (st\<lparr>issueToWorkPackageMap := seedMap (issueToWorkPackageMap st) entries\<rparr>) = (None, st1)"
  shows "createRelationships world issues entries st = retryMissingRelationships world st1
       \<and> attempts (retryMissingRelationships world st1)
           = attempts st1 @ concat (map (retryCall st1) (missingRelationships st1))
       \<and> filter isStillMissing (printed (retryMissingRelationships world st1))
           = filter isStillMissing (printed st1)
             @ map StillMissing (filter (\<lambda>d. retryCall st1 d = []) (missingRelationships st1))
       \<and> length (filter isRetrying (printed (retryMissingRelationships world st1)))
           = length (filter isRetrying (printed st))
             + (if missingRelationships st1 = [] then 0 else 1)
       \<and> missingRelationships (retryMissingRelationships world st1) = []"
proof -
  have rc: "retryCall ((say e st1)\<lparr>missingRelationships := []\<rparr>) = retryCall st1" for e
    by (rule ext) (rule retryCall_clear)
  have a: "createRelationships world issues entries st = retryMissingRelationships world st1"
    using assms by (simp add: createRelationships_def)
  have b: "attempts (retryMissingRelationships world st1)
           = attempts st1 @ concat (map (retryCall st1) (missingRelationships st1))"
    by (simp add: retryMissingRelationships_def Let_def retryAll_attempts rc)
  have c: "filter isStillMissing (printed (retryMissingRelationships world st1))
           = filter isStillMissing (printed st1)
             @ map StillMissing (filter (\<lambda>d. retryCall st1 d = []) (missingRelationships st1))"
    by (simp add: retryMissingRelationships_def Let_def retryAll_stillMissing isStillMissing_def rc)
  have p: "filter isRetrying (printed st1) = filter isRetrying (printed st)"
    using firstPass_retrying [of world issues
        "st\<lparr>issueToWorkPackageMap := seedMap (issueToWorkPackageMap st) entries\<rparr>"] assms
    by simp
  have d: "length (filter isRetrying (printed (retryMissingRelationships world st1)))
           = length (filter isRetrying (printed st))
             + (if missingRelationships st1 = [] then 0 else 1)"
    using p by (simp add: retryMissingRelationships_def Let_def retryAll_retrying isRetrying_def)
  have e: "missingRelationships (retryMissingRelationships world st1) = []"
    by (simp add: retryMissingRelationships_def Let_def)
  show ?thesis using a b c d e by simp
qed

theorem C7_one_retry_sweep_witness:
  "firstPass flaky_world [two_links_issue]
     (initial_rel_state\<lparr>issueToWorkPackageMap :=
        seedMap (issueToWorkPackageMap initial_rel_state) two_keys\<rparr>) = (None, after_first_pass)
   \<and> attempts (createRelationships flaky_world [two_links_issue] two_keys initial_rel_state)
       = [(Num 1, Num 2, Some ''blocks''), (Num 1, Num 2, Some ''blocks'')]
   \<and> filter isStillMissing
        (printed (createRelationships flaky_world [two_links_issue] two_keys initial_rel_state))
       = [StillMissing \<lparr>fromKey = ''P-1'', toKey = Some ''P-9'', relType = Some ''blocks''\<rparr>]
   \<and> length (filter isRetrying
        (printed (createRelationships flaky_world [two_links_issue] two_keys initial_rel_state))) = 1
   \<and> missingRelationships
        (createRelationships flaky_world [two_links_issue] two_keys initial_rel_state) = []"
proof -
  have h: "firstPass flaky_world [two_links_issue]
     (initial_rel_state\<lparr>issueToWorkPackageMap :=
        seedMap (issueToWorkPackageMap initial_rel_state) two_keys\<rparr>) = (None, after_first_pass)"
    by (simp add: two_links_issue_def after_first_pass_def initial_rel_state_def two_keys_def
        issue_with_def link_to_def handleRelationships_def resolve_def Map_get_def truthy_def
        handleLink_def classifyLink_def call_createRelationship_def flaky_world_def accepting_def
        createRelationship_def checkExistingRelationship_def relationFilters_def relationExists_def
      postOutcome_def say_def
        addMissing_def Set_add_def Let_def)
  show ?thesis
    using h C7_one_retry_sweep [OF h]
    by (simp add: after_first_pass_def initial_rel_state_def two_keys_def retryCall_def resolve_def
        Map_get_def truthy_def isStillMissing_def isRetrying_def)
qed






section \<open>Helper facts about placeholder substitution\<close>














section \<open>Helper facts about migrateIssues\<close>

































lemma calls_dry [simp]: "mutating_calls (dry l fx) = mutating_calls fx"
  by (simp add: dry_def)










section \<open>Results about migrateIssues\<close>







end
